theory Spec2Isabelle
  imports Main "HOL-Library.Sublist"
begin

section \<open>The Go runtime as far as the builder uses it\<close>

text \<open>
  The builder of \<^verbatim>\<open>pkg/boot/build/build_executables.go\<close> is a straight line of
  calls into the Go runtime: it reads the process environment, joins path elements,
  deletes files, describes child processes and runs them. The runtime is not part of the
  package; the pieces below follow its documented behaviour on a Unix platform.
\<close>

text \<open>A Go \<^verbatim>\<open>error\<close> value that is not nil, with its message.\<close>

datatype error = Error string

text \<open>
  The process environment is a list of \<^verbatim>\<open>KEY=value\<close> entries, as \<^verbatim>\<open>os.Environ()\<close>
  returns it. \<^verbatim>\<open>os.Getenv\<close> returns the value of the first entry of the key, and the
  empty string when there is none.
\<close>

definition has_key :: "string \<Rightarrow> string \<Rightarrow> bool" where
  "has_key k e = prefix (k @ ''='') e"

fun os_Getenv :: "string list \<Rightarrow> string \<Rightarrow> string" where
  "os_Getenv [] k = ''''"
| "os_Getenv (e # es) k =
     (if has_key k e then drop (length k + 1) e else os_Getenv es k)"

text \<open>\<^verbatim>\<open>strings.Join(elems, sep)\<close>.\<close>

fun strings_Join :: "string list \<Rightarrow> string \<Rightarrow> string" where
  "strings_Join [] sep = ''''"
| "strings_Join [e] sep = e"
| "strings_Join (e # es) sep = e @ sep @ strings_Join es sep"

text \<open>
  \<^verbatim>\<open>filepath.Join\<close> on Unix: the elements from the first non-empty one on are joined
  with a slash and the result is cleaned lexically (\<^verbatim>\<open>filepath.Clean\<close>: repeated
  slashes and \<^verbatim>\<open>.\<close> elements go, an inner \<^verbatim>\<open>..\<close> goes with the element before it,
  a \<^verbatim>\<open>..\<close> at the root goes, and the empty result is \<^verbatim>\<open>.\<close>).
\<close>

fun split_sep :: "string \<Rightarrow> string list" where
  "split_sep [] = [[]]"
| "split_sep (c # cs) =
     (if c = CHR ''/'' then [] # split_sep cs
      else (case split_sep cs of [] \<Rightarrow> [[c]] | w # ws \<Rightarrow> (c # w) # ws))"

fun clean_step :: "bool \<Rightarrow> string list \<Rightarrow> string \<Rightarrow> string list" where
  "clean_step rooted out c =
     (if c = '''' \<or> c = ''.'' then out
      else if c = ''..'' then
        (case out of
           [] \<Rightarrow> if rooted then [] else [''..'']
         | a # as \<Rightarrow> if a = ''..'' then ''..'' # out else as)
      else c # out)"

definition filepath_Clean :: "string \<Rightarrow> string" where
  "filepath_Clean p =
     (let rooted = (case p of [] \<Rightarrow> False | c # cs \<Rightarrow> c = CHR ''/'');
          out = rev (foldl (clean_step rooted) [] (split_sep p));
          s = (if rooted then ''/'' else '''') @ strings_Join out ''/''
      in if s = '''' then ''.'' else s)"

definition filepath_Join :: "string list \<Rightarrow> string" where
  "filepath_Join elem =
     (case dropWhile (\<lambda>e. e = '''') elem of
        [] \<Rightarrow> ''''
      | es \<Rightarrow> filepath_Clean (strings_Join es ''/''))"

text \<open>
  \<^verbatim>\<open>os.RemoveAll(path)\<close> on a file system seen as the set of the paths that exist:
  the path and everything below it are gone afterwards. A path that does not exist is
  no error, and the builder drops the returned error anyway.
\<close>

definition os_RemoveAll :: "string \<Rightarrow> string set \<Rightarrow> string set" where
  "os_RemoveAll p fs = Set.filter (\<lambda>q. q \<noteq> p \<and> \<not> prefix (p @ ''/'') q) fs"

text \<open>
  \<^verbatim>\<open>exec.Cmd\<close>, with the fields the builder touches. \<^verbatim>\<open>exec.Command(name, arg...)\<close>
  sets \<^verbatim>\<open>Args\<close> to the name followed by the arguments, so the program is the head of
  \<^verbatim>\<open>Args\<close>; \<^verbatim>\<open>Env\<close> starts as nil, here \<open>None\<close>. Go's \<^verbatim>\<open>append\<close> to a nil
  slice gives the slice of the one new element. A child whose \<^verbatim>\<open>Env\<close> is nil runs in
  the environment of the current process; any other \<^verbatim>\<open>Env\<close> is the whole environment
  of the child.
\<close>

datatype stream = os_Stdout | os_Stderr

record Cmd =
  Args :: "string list"
  Env :: "string list option"
  Stdout :: "stream option"
  Stderr :: "stream option"

definition exec_Command :: "string \<Rightarrow> string list \<Rightarrow> Cmd" where
  "exec_Command name arg =
     \<lparr>Args = name # arg, Env = None, Stdout = None, Stderr = None\<rparr>"

fun append_env :: "string list option \<Rightarrow> string \<Rightarrow> string list option" where
  "append_env None e = Some [e]"
| "append_env (Some es) e = Some (es @ [e])"

definition child_env :: "string list \<Rightarrow> Cmd \<Rightarrow> string list" where
  "child_env ambient c = (case Env c of None \<Rightarrow> ambient | Some es \<Rightarrow> es)"

text \<open>
  When a key occurs more than once in the environment of a child, \<^verbatim>\<open>os/exec\<close> keeps
  the last entry: this is the value the child sees.
\<close>

definition child_Getenv :: "string list \<Rightarrow> string \<Rightarrow> string option" where
  "child_Getenv es k =
     map_option (drop (length k + 1)) (find (has_key k) (rev es))"

section \<open>The builder's configuration and its surroundings\<close>

text \<open>
  The package variables that the command's flags fill in, and the two target names.
\<close>

record flags =
  goos :: string
  goarch :: string
  outputdir :: string
  Bazel :: bool
  Gazelle :: bool
  BuildTargets :: "string list"

definition apiserverTarget :: string where
  "apiserverTarget = ''apiserver''"

definition controllerTarget :: string where
  "controllerTarget = ''controller''"

text \<open>
  What a run meets outside the builder: the ambient environment, the result of
  \<^verbatim>\<open>os.Stat("go.mod")\<close>, the result of running each child process (nil, or the error
  of a child that did not start or exited non-zero), the result of parsing the flags,
  and whether \<^verbatim>\<open>initApis()\<close> returns (nil) or ends the process with an error.
  The commands of one run differ from each other in their arguments, so the result of a
  child is given per command.
\<close>

record surroundings =
  environ :: "string list"
  stat_go_mod :: "error option"
  run_result :: "Cmd \<Rightarrow> error option"
  parse_result :: "error option"
  initApis_result :: "error option"

section \<open>Effects\<close>

text \<open>
  A run is observed as the list of its effects, in order, together with its end:
  \<open>Inr ()\<close> when the function returns, \<open>Inl e\<close> when \<^verbatim>\<open>klog.Fatal(e)\<close> ended the
  process. \<^verbatim>\<open>klog.Infof\<close> is recorded with its format string and its arguments.
  No step of the builder uses what an earlier step returned, only the flags and the
  surroundings, so each step is an outcome of its own; steps in sequence join their
  effects and stop at the first fatal error.
\<close>

datatype event =
    InitApis
  | RemoveAll string
  | Infof string "string list"
  | Run Cmd
  | Fatal error

type_synonym outcome = "(error + unit) \<times> event list"

definition done_ok :: outcome where
  "done_ok = (Inr (), [])"

definition emit :: "event \<Rightarrow> outcome" where
  "emit ev = (Inr (), [ev])"

definition klog_Fatal :: "error \<Rightarrow> outcome" where
  "klog_Fatal e = (Inl e, [Fatal e])"

fun and_then :: "outcome \<Rightarrow> outcome \<Rightarrow> outcome" where
  "and_then (Inl e, t) nxt = (Inl e, t)"
| "and_then (Inr u, t) nxt = (fst nxt, t @ snd nxt)"

fun in_order :: "outcome list \<Rightarrow> outcome" where
  "in_order [] = done_ok"
| "in_order (s # ss) = and_then s (in_order ss)"

definition when_do :: "bool \<Rightarrow> outcome \<Rightarrow> outcome" where
  "when_do b s = (if b then s else done_ok)"

text \<open>\<^verbatim>\<open>err := c.Run(); if err != nil { klog.Fatal(err) }\<close>\<close>

definition run_or_fatal :: "surroundings \<Rightarrow> Cmd \<Rightarrow> outcome" where
  "run_or_fatal sur c =
     and_then (emit (Run c))
       (case run_result sur c of None \<Rightarrow> done_ok | Some err \<Rightarrow> klog_Fatal err)"

section \<open>Target selection\<close>

fun buildApiserver_loop :: "string list \<Rightarrow> bool" where
  "buildApiserver_loop [] = False"
| "buildApiserver_loop (t # ts) =
     (if t = apiserverTarget then True else buildApiserver_loop ts)"

definition buildApiserver :: "flags \<Rightarrow> bool" where
  "buildApiserver fl = buildApiserver_loop (BuildTargets fl)"

fun buildController_loop :: "string list \<Rightarrow> bool" where
  "buildController_loop [] = False"
| "buildController_loop (t # ts) =
     (if t = controllerTarget then True else buildController_loop ts)"

definition buildController :: "flags \<Rightarrow> bool" where
  "buildController fl = buildController_loop (BuildTargets fl)"

section \<open>The direct-toolchain path\<close>

text \<open>
  The command that \<^verbatim>\<open>GoBuild\<close> describes for the apiserver: the environment of
  the process with \<^verbatim>\<open>CGO_ENABLED=0\<close> appended, then the configured \<^verbatim>\<open>GOOS\<close> and
  \<^verbatim>\<open>GOARCH\<close> when they are not empty.
\<close>

definition apiserver_Cmd :: "flags \<Rightarrow> surroundings \<Rightarrow> Cmd" where
  "apiserver_Cmd fl sur =
     (let path = filepath_Join [''cmd'', ''apiserver'', ''main.go''];
          c = exec_Command ''go''
                [''build'', ''-o'', filepath_Join [outputdir fl, ''apiserver''], path];
          c = c\<lparr>Env := Some (environ sur @ [''CGO_ENABLED=0''])\<rparr>;
          c = (if length (goos fl) > 0
               then c\<lparr>Env := append_env (Env c) (''GOOS='' @ goos fl)\<rparr> else c);
          c = (if length (goarch fl) > 0
               then c\<lparr>Env := append_env (Env c) (''GOARCH='' @ goarch fl)\<rparr> else c)
      in c\<lparr>Stderr := Some os_Stderr, Stdout := Some os_Stdout\<rparr>)"

text \<open>
  The command for the controller manager. Its \<^verbatim>\<open>Env\<close> is nil until something is
  appended: the two entries guarded by the variable named \<^verbatim>\<open>%LocalAppData%\<close> are
  appended to nil, the assignment of the \<^verbatim>\<open>CGO_ENABLED\<close> branch replaces whatever
  was there, and \<^verbatim>\<open>GOOS\<close> and \<^verbatim>\<open>GOARCH\<close> are appended to what is there then.
\<close>

definition controller_Cmd :: "flags \<Rightarrow> surroundings \<Rightarrow> Cmd" where
  "controller_Cmd fl sur =
     (let gocache = os_Getenv (environ sur) ''GOCACHE'';
          localAppData = os_Getenv (environ sur) ''%LocalAppData%'';
          path = filepath_Join [''cmd'', ''manager'', ''main.go''];
          c = exec_Command ''go''
                [''build'', ''-o'', filepath_Join [outputdir fl, ''controller-manager''], path];
          c = (if length localAppData > 0
               then c\<lparr>Env := append_env (Env c) (''GOCACHE='' @ gocache)\<rparr> else c);
          c = (if length localAppData > 0
               then c\<lparr>Env := append_env (Env c) (''LocalAppData='' @ localAppData)\<rparr> else c);
          c = (if length (os_Getenv (environ sur) ''CGO_ENABLED'') = 0
               then c\<lparr>Env := Some (environ sur @ [''CGO_ENABLED=0''])\<rparr> else c);
          c = (if length (goos fl) > 0
               then c\<lparr>Env := append_env (Env c) (''GOOS='' @ goos fl)\<rparr> else c);
          c = (if length (goarch fl) > 0
               then c\<lparr>Env := append_env (Env c) (''GOARCH='' @ goarch fl)\<rparr> else c)
      in c\<lparr>Stderr := Some os_Stderr, Stdout := Some os_Stdout\<rparr>)"

text \<open>
  Modelled from the spec: \<^verbatim>\<open>initApis\<close> is a function of the package that this file
  only calls. The spec has it as an external step that both paths call first and
  unconditionally; here it is one effect, after which the run goes on when
  \<^verbatim>\<open>initApis\<close> returns and ends when it does not.
\<close>

definition initApis :: "surroundings \<Rightarrow> outcome" where
  "initApis sur =
     and_then (emit InitApis)
       (case initApis_result sur of None \<Rightarrow> done_ok | Some err \<Rightarrow> klog_Fatal err)"

definition GoBuild :: "flags \<Rightarrow> surroundings \<Rightarrow> outcome" where
  "GoBuild fl sur = in_order
     [ initApis sur,
       emit (RemoveAll (filepath_Join [''bin'', ''apiserver''])),
       emit (RemoveAll (filepath_Join [''bin'', ''controller-manager''])),
       when_do (buildApiserver fl) (in_order
         [ emit (Infof ''CGO_ENABLED=0'' []),
           when_do (length (goos fl) > 0) (emit (Infof (''GOOS='' @ goos fl) [])),
           when_do (length (goarch fl) > 0) (emit (Infof (''GOARCH='' @ goarch fl) [])),
           emit (Infof ''%s'' [strings_Join (Args (apiserver_Cmd fl sur)) '' '']),
           run_or_fatal sur (apiserver_Cmd fl sur) ]),
       when_do (buildController fl) (in_order
         [ emit (Infof (strings_Join (Args (controller_Cmd fl sur)) '' '') []),
           run_or_fatal sur (controller_Cmd fl sur) ]) ]"

section \<open>The path delegated to bazel\<close>

definition with_streams :: "Cmd \<Rightarrow> Cmd" where
  "with_streams c = c\<lparr>Stderr := Some os_Stderr, Stdout := Some os_Stdout\<rparr>"

definition update_repos_Cmd :: Cmd where
  "update_repos_Cmd = with_streams (exec_Command ''bazel''
     [ ''run'', ''//:gazelle'', ''--'', ''update-repos'', ''--from_file=go.mod'',
       ''--to_macro=repos.bzl%go_repositories'', ''--build_file_generation=on'',
       ''--build_file_proto_mode=disable'', ''--prune'' ])"

definition gazelle_Cmd :: Cmd where
  "gazelle_Cmd = with_streams (exec_Command ''bazel'' [''run'', ''//:gazelle''])"

definition targetDirs :: "flags \<Rightarrow> string list" where
  "targetDirs fl =
     (let dirs = [];
          dirs = (if buildApiserver fl
                  then dirs @ [filepath_Join [''cmd'', ''apiserver'']] else dirs);
          dirs = (if buildController fl
                  then dirs @ [filepath_Join [''cmd'', ''manager'']] else dirs)
      in dirs)"

definition bazel_build_Cmd :: "flags \<Rightarrow> Cmd" where
  "bazel_build_Cmd fl =
     with_streams (exec_Command ''bazel'' ([''build''] @ targetDirs fl))"

definition cp_apiserver_Cmd :: Cmd where
  "cp_apiserver_Cmd = with_streams (exec_Command ''cp''
     [ filepath_Join [''bazel-bin'', ''cmd'', ''apiserver'', ''apiserver_'', ''apiserver''],
       filepath_Join [''bin'', ''apiserver''] ])"

definition cp_manager_Cmd :: Cmd where
  "cp_manager_Cmd = with_streams (exec_Command ''cp''
     [ filepath_Join [''bazel-bin'', ''cmd'', ''manager'', ''manager_'', ''manager''],
       filepath_Join [''bin'', ''manager''] ])"

definition log_and_run :: "surroundings \<Rightarrow> Cmd \<Rightarrow> outcome" where
  "log_and_run sur c = in_order
     [ emit (Infof ''%s'' [strings_Join (Args c) '' '']),
       run_or_fatal sur c ]"

definition BazelBuild :: "flags \<Rightarrow> surroundings \<Rightarrow> outcome" where
  "BazelBuild fl sur = in_order
     [ initApis sur,
       when_do (Gazelle fl) (in_order
         [ when_do (stat_go_mod sur = None) (log_and_run sur update_repos_Cmd),
           log_and_run sur gazelle_Cmd ]),
       log_and_run sur (bazel_build_Cmd fl),
       emit (RemoveAll (filepath_Join [''bin'', ''apiserver''])),
       emit (RemoveAll (filepath_Join [''bin'', ''controller-manager''])),
       when_do (buildApiserver fl) (log_and_run sur cp_apiserver_Cmd),
       when_do (buildController fl) (log_and_run sur cp_manager_Cmd) ]"

section \<open>The command\<close>

definition RunBuildExecutables :: "flags \<Rightarrow> surroundings \<Rightarrow> outcome" where
  "RunBuildExecutables fl sur =
     and_then (case parse_result sur of None \<Rightarrow> done_ok | Some err \<Rightarrow> klog_Fatal err)
       (if Bazel fl then BazelBuild fl sur else GoBuild fl sur)"

section \<open>Reading a run\<close>

text \<open>
  The child processes a run started, the paths it removed, and the destinations of its
  copies (the last argument of each \<^verbatim>\<open>cp\<close>), each in the order of the run.
\<close>

fun runs :: "event list \<Rightarrow> Cmd list" where
  "runs [] = []"
| "runs (Run c # evs) = c # runs evs"
| "runs (ev # evs) = runs evs"

fun removals :: "event list \<Rightarrow> string list" where
  "removals [] = []"
| "removals (RemoveAll p # evs) = p # removals evs"
| "removals (ev # evs) = removals evs"

definition copy_dests :: "event list \<Rightarrow> string list" where
  "copy_dests evs =
     map (\<lambda>c. last (Args c)) (filter (\<lambda>c. take 1 (Args c) = [''cp'']) (runs evs))"

text \<open>The file system after the removals of a run, in their order.\<close>

definition after_removals :: "event list \<Rightarrow> string set \<Rightarrow> string set" where
  "after_removals evs fs = foldl (\<lambda>fs p. os_RemoveAll p fs) fs (removals evs)"

text \<open>
  The entries that the configured \<^verbatim>\<open>goos\<close> and \<^verbatim>\<open>goarch\<close> contribute to the
  environment of a child, in the order in which both blocks of \<^verbatim>\<open>GoBuild\<close> append
  them.
\<close>

definition cross_entries :: "flags \<Rightarrow> string list" where
  "cross_entries fl =
     (if goos fl \<noteq> [] then [''GOOS='' @ goos fl] else []) @
     (if goarch fl \<noteq> [] then [''GOARCH='' @ goarch fl] else [])"

text \<open>
  \<^verbatim>\<open>BazelBuild\<close> in two parts, for the proofs: the block under the
  \<^verbatim>\<open>Gazelle\<close> flag, and everything after it.
\<close>

definition bazel_gazelle :: "flags \<Rightarrow> surroundings \<Rightarrow> outcome" where
  "bazel_gazelle fl sur =
     when_do (Gazelle fl) (in_order
       [ when_do (stat_go_mod sur = None) (log_and_run sur update_repos_Cmd),
         log_and_run sur gazelle_Cmd ])"

definition bazel_rest :: "flags \<Rightarrow> surroundings \<Rightarrow> outcome" where
  "bazel_rest fl sur = in_order
     [ log_and_run sur (bazel_build_Cmd fl),
       emit (RemoveAll (filepath_Join [''bin'', ''apiserver''])),
       emit (RemoveAll (filepath_Join [''bin'', ''controller-manager''])),
       when_do (buildApiserver fl) (log_and_run sur cp_apiserver_Cmd),
       when_do (buildController fl) (log_and_run sur cp_manager_Cmd) ]"

section \<open>Sample runs\<close>

text \<open>
  The flags as \<^verbatim>\<open>AddBuildExecutables\<close> registers their defaults, and surroundings
  in which \<^verbatim>\<open>go.mod\<close> exists and every step succeeds. The concrete runs below
  are these with single fields changed.
\<close>

definition flags_default :: flags where
  "flags_default =
     \<lparr>goos = '''', goarch = '''', outputdir = ''bin'', Bazel = False, Gazelle = False,
      BuildTargets = [apiserverTarget, controllerTarget]\<rparr>"

definition all_succeed :: "string list \<Rightarrow> surroundings" where
  "all_succeed env =
     \<lparr>environ = env, stat_go_mod = None, run_result = (\<lambda>c. None),
      parse_result = None, initApis_result = None\<rparr>"

definition exit_status_1 :: error where
  "exit_status_1 = Error ''exit status 1''"

text \<open>The build of the apiserver exits with status 1; every other child succeeds.\<close>

definition apiserver_build_fails :: surroundings where
  "apiserver_build_fails =
     (all_succeed [''PATH=/usr/bin''])
       \<lparr>run_result := (\<lambda>c. if last (Args c) = ''cmd/apiserver/main.go''
                              then Some exit_status_1 else None)\<rparr>"

text \<open>There is no \<^verbatim>\<open>go.mod\<close> in the working directory.\<close>

definition no_go_mod :: surroundings where
  "no_go_mod =
     (all_succeed [''PATH=/usr/bin''])
       \<lparr>stat_go_mod := Some (Error ''stat go.mod: no such file or directory'')\<rparr>"

text \<open>\<^verbatim>\<open>go.mod\<close> exists and the update of the repositories exits with status 1.\<close>

definition update_repos_fails :: surroundings where
  "update_repos_fails =
     (all_succeed [''PATH=/usr/bin''])
       \<lparr>run_result := (\<lambda>c. if ''update-repos'' \<in> set (Args c)
                              then Some exit_status_1 else None)\<rparr>"

text \<open>There is no \<^verbatim>\<open>go.mod\<close> and \<^verbatim>\<open>bazel run //:gazelle\<close> exits with status 1.\<close>

definition gazelle_fails :: surroundings where
  "gazelle_fails =
     no_go_mod\<lparr>run_result := (\<lambda>c. if Args c = [''bazel'', ''run'', ''//:gazelle'']
                                       then Some exit_status_1 else None)\<rparr>"

text \<open>Cross-compiling for linux on arm64; the path delegated to bazel with gazelle.\<close>

definition flags_linux_arm64 :: flags where
  "flags_linux_arm64 = flags_default\<lparr>goos := ''linux'', goarch := ''arm64''\<rparr>"

definition flags_bazel_gazelle :: flags where
  "flags_bazel_gazelle = flags_default\<lparr>Bazel := True, Gazelle := True\<rparr>"

section \<open>Facts about the runtime pieces\<close>

lemma join_bin_apiserver: "filepath_Join [''bin'', ''apiserver''] = ''bin/apiserver''"
  by (simp add: filepath_Join_def filepath_Clean_def)

lemma join_bin_controller_manager:
  "filepath_Join [''bin'', ''controller-manager''] = ''bin/controller-manager''"
  by (simp add: filepath_Join_def filepath_Clean_def)

lemma join_bin_manager: "filepath_Join [''bin'', ''manager''] = ''bin/manager''"
  by (simp add: filepath_Join_def filepath_Clean_def)

lemma join_cmd_apiserver_main:
  "filepath_Join [''cmd'', ''apiserver'', ''main.go''] = ''cmd/apiserver/main.go''"
  by (simp add: filepath_Join_def filepath_Clean_def)

lemma join_cmd_manager_main:
  "filepath_Join [''cmd'', ''manager'', ''main.go''] = ''cmd/manager/main.go''"
  by (simp add: filepath_Join_def filepath_Clean_def)

lemma join_cmd_apiserver: "filepath_Join [''cmd'', ''apiserver''] = ''cmd/apiserver''"
  by (simp add: filepath_Join_def filepath_Clean_def)

lemma join_cmd_manager: "filepath_Join [''cmd'', ''manager''] = ''cmd/manager''"
  by (simp add: filepath_Join_def filepath_Clean_def)

lemma join_bazel_apiserver:
  "filepath_Join [''bazel-bin'', ''cmd'', ''apiserver'', ''apiserver_'', ''apiserver'']
     = ''bazel-bin/cmd/apiserver/apiserver_/apiserver''"
  by (simp add: filepath_Join_def filepath_Clean_def)

lemma join_bazel_manager:
  "filepath_Join [''bazel-bin'', ''cmd'', ''manager'', ''manager_'', ''manager'']
     = ''bazel-bin/cmd/manager/manager_/manager''"
  by (simp add: filepath_Join_def filepath_Clean_def)

lemmas join_literals = join_bin_apiserver join_bin_controller_manager join_bin_manager
  join_cmd_apiserver_main join_cmd_manager_main join_cmd_apiserver join_cmd_manager
  join_bazel_apiserver join_bazel_manager

lemma find_append_list:
  "find P (xs @ ys) = (case find P xs of None \<Rightarrow> find P ys | Some x \<Rightarrow> Some x)"
  by (induction xs) simp_all

lemma count_list_zero: "x \<notin> set xs \<Longrightarrow> count_list xs x = 0"
  by (induction xs) auto

text \<open>The last entry of a key decides what the child sees.\<close>

lemma child_Getenv_last:
  assumes "\<forall>e \<in> set ys. \<not> has_key k e" and "has_key k x"
  shows "child_Getenv (xs @ x # ys) k = Some (drop (length k + 1) x)"
proof -
  from assms(1) have "find (has_key k) (rev ys) = None"
    by (simp add: find_None_iff)
  with assms(2) show ?thesis
    by (simp add: child_Getenv_def find_append_list)
qed

text \<open>A path that is neither removed nor below a removed path is still there.\<close>

lemma survives_removals:
  assumes "\<forall>p \<in> set ps. q \<noteq> p \<and> \<not> prefix (p @ ''/'') q" and "q \<in> fs"
  shows "q \<in> foldl (\<lambda>fs p. os_RemoveAll p fs) fs ps"
  using assms by (induction ps arbitrary: fs) (simp_all add: os_RemoveAll_def)

section \<open>Facts about effects\<close>

lemmas effect_defs = done_ok_def emit_def klog_Fatal_def when_do_def run_or_fatal_def
  initApis_def log_and_run_def

lemma runs_append: "runs (xs @ ys) = runs xs @ runs ys"
  by (induction xs rule: runs.induct) simp_all

lemma removals_append: "removals (xs @ ys) = removals xs @ removals ys"
  by (induction xs rule: removals.induct) simp_all

lemma snd_and_then_cases:
  "snd (and_then a b) = snd a \<or> snd (and_then a b) = snd a @ snd b"
  by (cases a; cases "fst a") auto

lemma removals_and_then:
  "set (removals (snd (and_then a b))) \<subseteq> set (removals (snd a)) \<union> set (removals (snd b))"
  using snd_and_then_cases [of a b] by (auto simp: removals_append)

lemma runs_and_then:
  "set (runs (snd (and_then a b))) \<subseteq> set (runs (snd a)) \<union> set (runs (snd b))"
  using snd_and_then_cases [of a b] by (auto simp: runs_append)

lemma initApis_quiet: "removals (snd (initApis sur)) = [] \<and> runs (snd (initApis sur)) = []"
  by (simp add: effect_defs split: option.splits)

lemma Cmd_neq_by_Args: "Args c \<noteq> Args c' \<Longrightarrow> c \<noteq> c'"
  by auto

section \<open>Facts about target selection\<close>

lemma buildApiserver_loop_mem: "buildApiserver_loop ts = (''apiserver'' \<in> set ts)"
  by (induction ts) (auto simp: apiserverTarget_def)

lemma buildController_loop_mem: "buildController_loop ts = (''controller'' \<in> set ts)"
  by (induction ts) (auto simp: controllerTarget_def)

section \<open>The commands of the direct path\<close>

lemma apiserver_Cmd_Args:
  "Args (apiserver_Cmd fl sur) =
     [''go'', ''build'', ''-o'', filepath_Join [outputdir fl, ''apiserver''],
      ''cmd/apiserver/main.go'']"
  by (simp add: apiserver_Cmd_def exec_Command_def Let_def join_literals)

lemma controller_Cmd_Args:
  "Args (controller_Cmd fl sur) =
     [''go'', ''build'', ''-o'', filepath_Join [outputdir fl, ''controller-manager''],
      ''cmd/manager/main.go'']"
  by (simp add: controller_Cmd_def exec_Command_def Let_def join_literals)

lemma cmds_differ: "apiserver_Cmd fl sur \<noteq> controller_Cmd fl sur"
  by (rule Cmd_neq_by_Args) (simp add: apiserver_Cmd_Args controller_Cmd_Args)

lemma in_cross_entries:
  "e \<in> set (cross_entries fl) \<longleftrightarrow>
     (goos fl \<noteq> [] \<and> e = ''GOOS='' @ goos fl) \<or> (goarch fl \<noteq> [] \<and> e = ''GOARCH='' @ goarch fl)"
  by (auto simp: cross_entries_def)

lemma cross_entries_Nil: "cross_entries fl = [] \<longleftrightarrow> goos fl = [] \<and> goarch fl = []"
  by (simp add: cross_entries_def)

lemma cross_entries_no_CGO: "\<forall>e \<in> set (cross_entries fl). \<not> has_key ''CGO_ENABLED'' e"
  by (auto simp: in_cross_entries has_key_def)

lemma count_cross_entries_CGO: "count_list (cross_entries fl) ''CGO_ENABLED=0'' = 0"
  by (rule count_list_zero) (auto simp: in_cross_entries)

text \<open>The environment of the apiserver's build always starts from the ambient one.\<close>

lemma apiserver_child_env:
  "child_env amb (apiserver_Cmd fl sur) =
     environ sur @ [''CGO_ENABLED=0''] @ cross_entries fl"
  by (simp add: apiserver_Cmd_def exec_Command_def Let_def child_env_def cross_entries_def)

text \<open>
  The \<^verbatim>\<open>Env\<close> of the controller manager's build, by the three ways through its
  block: the \<^verbatim>\<open>CGO_ENABLED\<close> branch assigns the ambient environment; without it,
  \<^verbatim>\<open>Env\<close> holds only what was appended to nil.
\<close>

lemma controller_Env:
  "Env (controller_Cmd fl sur) =
     (if os_Getenv (environ sur) ''CGO_ENABLED'' = []
      then Some (environ sur @ [''CGO_ENABLED=0''] @ cross_entries fl)
      else if os_Getenv (environ sur) ''%LocalAppData%'' \<noteq> []
      then Some ([''GOCACHE='' @ os_Getenv (environ sur) ''GOCACHE'',
                 ''LocalAppData='' @ os_Getenv (environ sur) ''%LocalAppData%'']
                 @ cross_entries fl)
      else if cross_entries fl = [] then None else Some (cross_entries fl))"
  by (cases "goos fl = []"; cases "goarch fl = []";
      cases "os_Getenv (environ sur) ''%LocalAppData%'' = []";
      cases "os_Getenv (environ sur) ''CGO_ENABLED'' = []";
      simp add: controller_Cmd_def exec_Command_def Let_def cross_entries_def)

lemma controller_child_env:
  "child_env amb (controller_Cmd fl sur) =
     (if os_Getenv (environ sur) ''CGO_ENABLED'' = []
      then environ sur @ [''CGO_ENABLED=0''] @ cross_entries fl
      else if os_Getenv (environ sur) ''%LocalAppData%'' \<noteq> []
      then [''GOCACHE='' @ os_Getenv (environ sur) ''GOCACHE'',
            ''LocalAppData='' @ os_Getenv (environ sur) ''%LocalAppData%'']
            @ cross_entries fl
      else if cross_entries fl = [] then amb else cross_entries fl)"
  by (simp add: child_env_def controller_Env)

lemma apiserver_env_GOOS:
  "(goos fl \<noteq> '''' \<longrightarrow> ''GOOS='' @ goos fl \<in> set (child_env (environ sur) (apiserver_Cmd fl sur))) \<and>
   (\<forall>e \<in> set (child_env (environ sur) (apiserver_Cmd fl sur)). has_key ''GOOS'' e \<longrightarrow>
            e \<in> set (environ sur) \<or> (goos fl \<noteq> '''' \<and> e = ''GOOS='' @ goos fl))"
  by (auto simp: apiserver_child_env in_cross_entries has_key_def)

lemma apiserver_env_GOARCH:
  "(goarch fl \<noteq> '''' \<longrightarrow> ''GOARCH='' @ goarch fl \<in> set (child_env (environ sur) (apiserver_Cmd fl sur))) \<and>
   (\<forall>e \<in> set (child_env (environ sur) (apiserver_Cmd fl sur)). has_key ''GOARCH'' e \<longrightarrow>
            e \<in> set (environ sur) \<or> (goarch fl \<noteq> '''' \<and> e = ''GOARCH='' @ goarch fl))"
  by (auto simp: apiserver_child_env in_cross_entries has_key_def)

lemma controller_env_GOOS:
  "(goos fl \<noteq> '''' \<longrightarrow> ''GOOS='' @ goos fl \<in> set (child_env (environ sur) (controller_Cmd fl sur))) \<and>
   (\<forall>e \<in> set (child_env (environ sur) (controller_Cmd fl sur)). has_key ''GOOS'' e \<longrightarrow>
            e \<in> set (environ sur) \<or> (goos fl \<noteq> '''' \<and> e = ''GOOS='' @ goos fl))"
  by (auto simp: controller_child_env in_cross_entries cross_entries_Nil has_key_def)

lemma controller_env_GOARCH:
  "(goarch fl \<noteq> '''' \<longrightarrow> ''GOARCH='' @ goarch fl \<in> set (child_env (environ sur) (controller_Cmd fl sur))) \<and>
   (\<forall>e \<in> set (child_env (environ sur) (controller_Cmd fl sur)). has_key ''GOARCH'' e \<longrightarrow>
            e \<in> set (environ sur) \<or> (goarch fl \<noteq> '''' \<and> e = ''GOARCH='' @ goarch fl))"
  by (auto simp: controller_child_env in_cross_entries cross_entries_Nil has_key_def)

lemma child_Getenv_CGO:
  "child_Getenv (xs @ ''CGO_ENABLED=0'' # cross_entries fl) ''CGO_ENABLED'' = Some ''0''"
proof -
  have "child_Getenv (xs @ ''CGO_ENABLED=0'' # cross_entries fl) ''CGO_ENABLED''
          = Some (drop (length ''CGO_ENABLED'' + 1) ''CGO_ENABLED=0'')"
    by (rule child_Getenv_last) (rule cross_entries_no_CGO, simp add: has_key_def)
  then show ?thesis by simp
qed

lemma apiserver_CGO:
  "count_list (child_env (environ sur) (apiserver_Cmd fl sur)) ''CGO_ENABLED=0''
     = count_list (environ sur) ''CGO_ENABLED=0'' + 1 \<and>
   child_Getenv (child_env (environ sur) (apiserver_Cmd fl sur)) ''CGO_ENABLED'' = Some ''0''"
  by (simp add: apiserver_child_env count_cross_entries_CGO child_Getenv_CGO)

lemma controller_CGO_unset:
  assumes "os_Getenv (environ sur) ''CGO_ENABLED'' = ''''"
  shows "count_list (child_env (environ sur) (controller_Cmd fl sur)) ''CGO_ENABLED=0''
     = count_list (environ sur) ''CGO_ENABLED=0'' + 1 \<and>
   child_Getenv (child_env (environ sur) (controller_Cmd fl sur)) ''CGO_ENABLED'' = Some ''0''"
  using assms
  by (simp add: controller_child_env count_cross_entries_CGO child_Getenv_CGO)

lemma controller_CGO_set:
  assumes "os_Getenv (environ sur) ''CGO_ENABLED'' \<noteq> ''''"
  shows "count_list (child_env (environ sur) (controller_Cmd fl sur)) ''CGO_ENABLED=0''
           \<le> count_list (environ sur) ''CGO_ENABLED=0'' \<and>
         (\<forall>e \<in> set (child_env (environ sur) (controller_Cmd fl sur)).
            has_key ''CGO_ENABLED'' e \<longrightarrow> e \<in> set (environ sur))"
  using assms cross_entries_no_CGO [of fl]
  by (auto simp: controller_child_env count_cross_entries_CGO has_key_def)

section \<open>The runs of the direct path\<close>

lemma GoBuild_runs_subset:
  "set (runs (snd (GoBuild fl sur))) \<subseteq> {apiserver_Cmd fl sur, controller_Cmd fl sur}"
  by (simp add: GoBuild_def effect_defs split: option.splits)

lemma GoBuild_removals:
  assumes "initApis_result sur = None"
  shows "removals (snd (GoBuild fl sur)) = [''bin/apiserver'', ''bin/controller-manager'']"
  using assms by (simp add: GoBuild_def effect_defs join_literals split: option.splits)

lemma GoBuild_all_ok:
  assumes "initApis_result sur = None" and "\<forall>c. run_result sur c = None"
  shows "fst (GoBuild fl sur) = Inr () \<and>
         removals (snd (GoBuild fl sur)) = [''bin/apiserver'', ''bin/controller-manager''] \<and>
         runs (snd (GoBuild fl sur)) =
           (if buildApiserver fl then [apiserver_Cmd fl sur] else []) @
           (if buildController fl then [controller_Cmd fl sur] else [])"
  using assms by (simp add: GoBuild_def effect_defs join_literals)

section \<open>The commands and the runs of the path delegated to bazel\<close>

lemma bazel_Args:
  "Args update_repos_Cmd =
     [''bazel'', ''run'', ''//:gazelle'', ''--'', ''update-repos'', ''--from_file=go.mod'',
      ''--to_macro=repos.bzl%go_repositories'', ''--build_file_generation=on'',
      ''--build_file_proto_mode=disable'', ''--prune'']"
  "Args gazelle_Cmd = [''bazel'', ''run'', ''//:gazelle'']"
  "Args (bazel_build_Cmd fl) = ''bazel'' # ''build'' # targetDirs fl"
  "Args cp_apiserver_Cmd =
     [''cp'', ''bazel-bin/cmd/apiserver/apiserver_/apiserver'', ''bin/apiserver'']"
  "Args cp_manager_Cmd = [''cp'', ''bazel-bin/cmd/manager/manager_/manager'', ''bin/manager'']"
  by (simp_all add: update_repos_Cmd_def gazelle_Cmd_def bazel_build_Cmd_def cp_apiserver_Cmd_def
      cp_manager_Cmd_def with_streams_def exec_Command_def join_literals)

lemma update_repos_distinct:
  "update_repos_Cmd \<noteq> gazelle_Cmd"
  "update_repos_Cmd \<noteq> bazel_build_Cmd fl"
  "update_repos_Cmd \<noteq> cp_apiserver_Cmd"
  "update_repos_Cmd \<noteq> cp_manager_Cmd"
  by (rule Cmd_neq_by_Args, simp add: bazel_Args)+

lemma BazelBuild_split:
  "BazelBuild fl sur =
     and_then (initApis sur) (and_then (bazel_gazelle fl sur) (bazel_rest fl sur))"
  by (simp add: BazelBuild_def bazel_rest_def bazel_gazelle_def)

lemma bazel_gazelle_removals: "removals (snd (bazel_gazelle fl sur)) = []"
  by (simp add: bazel_gazelle_def effect_defs split: option.splits)

lemma bazel_gazelle_runs:
  "set (runs (snd (bazel_gazelle fl sur))) \<subseteq> {update_repos_Cmd, gazelle_Cmd}"
  by (simp add: bazel_gazelle_def effect_defs split: option.splits)

lemma bazel_rest_runs:
  "set (runs (snd (bazel_rest fl sur))) \<subseteq> {bazel_build_Cmd fl, cp_apiserver_Cmd, cp_manager_Cmd}"
  by (simp add: bazel_rest_def effect_defs split: option.splits)

lemma bazel_rest_removals:
  "set (removals (snd (bazel_rest fl sur))) \<subseteq> {''bin/apiserver'', ''bin/controller-manager''}"
  by (simp add: bazel_rest_def effect_defs join_literals split: option.splits)

lemma BazelBuild_removals:
  "set (removals (snd (BazelBuild fl sur))) \<subseteq> {''bin/apiserver'', ''bin/controller-manager''}"
proof -
  have "set (removals (snd (BazelBuild fl sur)))
          \<subseteq> set (removals (snd (initApis sur))) \<union>
            (set (removals (snd (bazel_gazelle fl sur))) \<union> set (removals (snd (bazel_rest fl sur))))"
    unfolding BazelBuild_split
    using removals_and_then [of "initApis sur" "and_then (bazel_gazelle fl sur) (bazel_rest fl sur)"]
      removals_and_then [of "bazel_gazelle fl sur" "bazel_rest fl sur"]
    by blast
  with bazel_rest_removals [of fl sur] show ?thesis
    by (simp add: initApis_quiet bazel_gazelle_removals)
qed

lemma BazelBuild_runs:
  "set (runs (snd (BazelBuild fl sur)))
     \<subseteq> {update_repos_Cmd, gazelle_Cmd, bazel_build_Cmd fl, cp_apiserver_Cmd, cp_manager_Cmd}"
proof -
  have "set (runs (snd (BazelBuild fl sur)))
          \<subseteq> set (runs (snd (initApis sur))) \<union>
            (set (runs (snd (bazel_gazelle fl sur))) \<union> set (runs (snd (bazel_rest fl sur))))"
    unfolding BazelBuild_split
    using runs_and_then [of "initApis sur" "and_then (bazel_gazelle fl sur) (bazel_rest fl sur)"]
      runs_and_then [of "bazel_gazelle fl sur" "bazel_rest fl sur"]
    by blast
  with bazel_rest_runs [of fl sur] bazel_gazelle_runs [of fl sur] show ?thesis
    by (auto simp: initApis_quiet)
qed

lemma BazelBuild_copy_dests:
  "set (copy_dests (snd (BazelBuild fl sur))) \<subseteq> {''bin/apiserver'', ''bin/manager''}"
proof
  fix d assume "d \<in> set (copy_dests (snd (BazelBuild fl sur)))"
  then obtain c where c: "c \<in> set (runs (snd (BazelBuild fl sur)))" "take 1 (Args c) = [''cp'']"
    and d: "d = last (Args c)"
    by (auto simp: copy_dests_def)
  from c(1) BazelBuild_runs [of fl sur]
  have "c \<in> {update_repos_Cmd, gazelle_Cmd, bazel_build_Cmd fl, cp_apiserver_Cmd, cp_manager_Cmd}"
    by blast
  with c(2) have "c = cp_apiserver_Cmd \<or> c = cp_manager_Cmd"
    by (auto simp: bazel_Args)
  with d show "d \<in> {''bin/apiserver'', ''bin/manager''}"
    by (auto simp: bazel_Args)
qed

lemma BazelBuild_all_ok:
  assumes "initApis_result sur = None" and "\<forall>c. run_result sur c = None"
  shows "fst (BazelBuild fl sur) = Inr () \<and>
         removals (snd (BazelBuild fl sur)) = [''bin/apiserver'', ''bin/controller-manager''] \<and>
         copy_dests (snd (BazelBuild fl sur)) =
           (if buildApiserver fl then [''bin/apiserver''] else []) @
           (if buildController fl then [''bin/manager''] else [])"
  using assms
  by (simp add: BazelBuild_def effect_defs join_literals copy_dests_def bazel_Args)

section \<open>Facts about the sample runs\<close>

lemmas sample_defs = flags_default_def all_succeed_def exit_status_1_def
  apiserver_build_fails_def no_go_mod_def update_repos_fails_def
  gazelle_fails_def apiserverTarget_def controllerTarget_def flags_linux_arm64_def
  flags_bazel_gazelle_def

lemma all_succeed_simps:
  "environ (all_succeed env) = env"
  "stat_go_mod (all_succeed env) = None"
  "run_result (all_succeed env) c = None"
  "parse_result (all_succeed env) = None"
  "initApis_result (all_succeed env) = None"
  by (simp_all add: all_succeed_def)

lemma sample_targets:
  "buildApiserver flags_default" "buildController flags_default"
  "buildApiserver flags_linux_arm64" "buildController flags_linux_arm64"
  "buildApiserver flags_bazel_gazelle" "buildController flags_bazel_gazelle"
  by (simp_all add: sample_defs buildApiserver_def buildController_def)

section \<open>The claims\<close>

subsection \<open>C1: a failed build of the apiserver ends the command\<close>

text \<open>
  Claim C1. On the direct path (the \<^verbatim>\<open>Bazel\<close> flag is off, the flags parse and
  \<^verbatim>\<open>initApis\<close> returns), when the apiserver is selected and its \<^verbatim>\<open>go build\<close>
  does not start or exits non-zero with the error \<open>err\<close>, the command ends with
  \<^verbatim>\<open>klog.Fatal(err)\<close>: the apiserver's build is the only child the run started, the
  controller manager's build is not among its children whatever the selection, and the
  failed child followed by the fatal error are the last two effects of the run, so no
  clean-up, second attempt or roll-back follows. The only removals are the two that precede
  the build.
\<close>

theorem apiserver_failure_halts_command:
  assumes "\<not> Bazel fl" and "parse_result sur = None" and "initApis_result sur = None"
    and "buildApiserver fl"
    and "run_result sur (apiserver_Cmd fl sur) = Some err"
  shows "fst (RunBuildExecutables fl sur) = Inl err \<and>
         runs (snd (RunBuildExecutables fl sur)) = [apiserver_Cmd fl sur] \<and>
         controller_Cmd fl sur \<notin> set (runs (snd (RunBuildExecutables fl sur))) \<and>
         suffix [Run (apiserver_Cmd fl sur), Fatal err] (snd (RunBuildExecutables fl sur)) \<and>
         removals (snd (RunBuildExecutables fl sur)) =
           [''bin/apiserver'', ''bin/controller-manager'']"
proof -
  define before where "before =
    [InitApis, RemoveAll ''bin/apiserver'', RemoveAll ''bin/controller-manager'',
     Infof ''CGO_ENABLED=0'' []] @
    (if goos fl \<noteq> [] then [Infof (''GOOS='' @ goos fl) []] else []) @
    (if goarch fl \<noteq> [] then [Infof (''GOARCH='' @ goarch fl) []] else []) @
    [Infof ''%s'' [strings_Join (Args (apiserver_Cmd fl sur)) '' '']]"
  have run: "RunBuildExecutables fl sur =
               (Inl err, before @ [Run (apiserver_Cmd fl sur), Fatal err])"
    using assms
    by (simp add: RunBuildExecutables_def GoBuild_def effect_defs join_literals before_def)
  have quiet: "runs before = []"
    and gone: "removals before = [''bin/apiserver'', ''bin/controller-manager'']"
    by (simp_all add: before_def)
  have last_two: "suffix [Run (apiserver_Cmd fl sur), Fatal err]
                    (before @ [Run (apiserver_Cmd fl sur), Fatal err])"
    by (simp add: suffix_def)
  from run quiet gone last_two cmds_differ [of fl sur] show ?thesis
    by (simp add: runs_append removals_append)
qed

theorem apiserver_failure_halts_command_witness:
  "\<not> Bazel flags_default \<and>
   parse_result apiserver_build_fails = None \<and>
   initApis_result apiserver_build_fails = None \<and>
   buildApiserver flags_default \<and>
   buildController flags_default \<and>
   run_result apiserver_build_fails (apiserver_Cmd flags_default apiserver_build_fails)
     = Some exit_status_1 \<and>
   run_result apiserver_build_fails (controller_Cmd flags_default apiserver_build_fails) = None \<and>
   fst (RunBuildExecutables flags_default apiserver_build_fails) = Inl exit_status_1 \<and>
   runs (snd (RunBuildExecutables flags_default apiserver_build_fails))
     = [apiserver_Cmd flags_default apiserver_build_fails] \<and>
   controller_Cmd flags_default apiserver_build_fails
     \<notin> set (runs (snd (RunBuildExecutables flags_default apiserver_build_fails))) \<and>
   suffix [Run (apiserver_Cmd flags_default apiserver_build_fails), Fatal exit_status_1]
     (snd (RunBuildExecutables flags_default apiserver_build_fails)) \<and>
   removals (snd (RunBuildExecutables flags_default apiserver_build_fails))
     = [''bin/apiserver'', ''bin/controller-manager'']"
proof -
  have h1: "\<not> Bazel flags_default"
    by (simp add: sample_defs)
  have h2: "parse_result apiserver_build_fails = None"
    and h3: "initApis_result apiserver_build_fails = None"
    by (simp_all add: sample_defs)
  have h4: "buildApiserver flags_default" and h4': "buildController flags_default"
    by (rule sample_targets)+
  have h5: "run_result apiserver_build_fails (apiserver_Cmd flags_default apiserver_build_fails)
              = Some exit_status_1"
    by (simp add: apiserver_build_fails_def all_succeed_def apiserver_Cmd_Args)
  have h6: "run_result apiserver_build_fails (controller_Cmd flags_default apiserver_build_fails)
              = None"
    by (simp add: apiserver_build_fails_def all_succeed_def controller_Cmd_Args)
  from apiserver_failure_halts_command [OF h1 h2 h3 h4 h5] h1 h2 h3 h4 h4' h5 h6 show ?thesis
    by blast
qed

subsection \<open>C2: target selection is membership\<close>

text \<open>
  Claim C2. For every list of targets, \<^verbatim>\<open>buildApiserver()\<close> is true exactly when
  the string \<^verbatim>\<open>apiserver\<close> occurs in the list and \<^verbatim>\<open>buildController()\<close> exactly
  when \<^verbatim>\<open>controller\<close> occurs in it. Two lists with the same elements, in any order
  and with any repetitions, therefore select the same targets.
\<close>

theorem build_target_membership:
  "buildApiserver fl = (''apiserver'' \<in> set (BuildTargets fl)) \<and>
   buildController fl = (''controller'' \<in> set (BuildTargets fl)) \<and>
   (set (BuildTargets fl) = set (BuildTargets fl') \<longrightarrow>
      buildApiserver fl = buildApiserver fl' \<and> buildController fl = buildController fl')"
proof -
  have a: "buildApiserver f = (''apiserver'' \<in> set (BuildTargets f))" for f
    unfolding buildApiserver_def by (rule buildApiserver_loop_mem)
  have c: "buildController f = (''controller'' \<in> set (BuildTargets f))" for f
    unfolding buildController_def by (rule buildController_loop_mem)
  show ?thesis
    by (simp add: a c)
qed

theorem build_target_membership_witness:
  "set (BuildTargets (flags_default\<lparr>BuildTargets := [''controller'', ''apiserver'', ''apiserver'']\<rparr>))
     = set (BuildTargets flags_default) \<and>
   buildApiserver (flags_default\<lparr>BuildTargets := [''controller'', ''apiserver'', ''apiserver'']\<rparr>)
     = buildApiserver flags_default \<and>
   buildController (flags_default\<lparr>BuildTargets := [''controller'', ''apiserver'', ''apiserver'']\<rparr>)
     = buildController flags_default \<and>
   buildApiserver flags_default \<and>
   \<not> buildApiserver (flags_default\<lparr>BuildTargets := [''controller'', ''apiserve'']\<rparr>)"
proof -
  have h: "set (BuildTargets (flags_default\<lparr>BuildTargets := [''controller'', ''apiserver'', ''apiserver'']\<rparr>))
             = set (BuildTargets flags_default)"
    by (auto simp: sample_defs)
  from build_target_membership
      [of "flags_default\<lparr>BuildTargets := [''controller'', ''apiserver'', ''apiserver'']\<rparr>"
      flags_default] h
    build_target_membership [of flags_default flags_default]
    build_target_membership
      [of "flags_default\<lparr>BuildTargets := [''controller'', ''apiserve'']\<rparr>" flags_default]
  show ?thesis
    by (simp add: sample_defs)
qed

subsection \<open>C3: the removals of the direct path ignore the output directory\<close>

text \<open>
  Claim C3 says that the stale artifact removed before the build is the one at the output
  path, \<^verbatim>\<open><outputdir>/<artifactName>\<close>, where \<^verbatim>\<open>-o\<close> writes. \<^verbatim>\<open>GoBuild\<close> removes
  \<^verbatim>\<open>bin/apiserver\<close> and \<^verbatim>\<open>bin/controller-manager\<close> whatever the output directory
  is. With \<^verbatim>\<open>--output linux\<close> and the apiserver selected, the run below removes the
  two paths under \<^verbatim>\<open>bin\<close>, builds to \<^verbatim>\<open>linux/apiserver\<close>, and a file that was
  at \<^verbatim>\<open>linux/apiserver\<close> before is still there after the removals.
\<close>

theorem stale_removal_ignores_outputdir:
  "fst (GoBuild (flags_default\<lparr>outputdir := ''linux'', BuildTargets := [''apiserver'']\<rparr>)
      (all_succeed [])) = Inr () \<and>
   removals (snd (GoBuild (flags_default\<lparr>outputdir := ''linux'', BuildTargets := [''apiserver'']\<rparr>)
      (all_succeed []))) = [''bin/apiserver'', ''bin/controller-manager''] \<and>
   map Args (runs (snd (GoBuild
      (flags_default\<lparr>outputdir := ''linux'', BuildTargets := [''apiserver'']\<rparr>) (all_succeed []))))
     = [[''go'', ''build'', ''-o'', ''linux/apiserver'', ''cmd/apiserver/main.go'']] \<and>
   ''linux/apiserver'' \<in> after_removals (snd (GoBuild
      (flags_default\<lparr>outputdir := ''linux'', BuildTargets := [''apiserver'']\<rparr>) (all_succeed [])))
      {''linux/apiserver''}"
proof -
  let ?F = "flags_default\<lparr>outputdir := ''linux'', BuildTargets := [''apiserver'']\<rparr>"
  have t: "buildApiserver ?F" "\<not> buildController ?F"
    by (simp_all add: buildApiserver_def buildController_def sample_defs)
  have j: "filepath_Join [outputdir ?F, ''apiserver''] = ''linux/apiserver''"
    by (simp add: filepath_Join_def filepath_Clean_def)
  from GoBuild_all_ok [of "all_succeed []" ?F] t j show ?thesis
    by (simp add: all_succeed_simps apiserver_Cmd_Args after_removals_def os_RemoveAll_def)
qed

subsection \<open>C4: only the controller selected\<close>

text \<open>
  Claim C4. On the direct path with the targets \<^verbatim>\<open>["controller"]\<close>, once
  \<^verbatim>\<open>initApis\<close> has returned, both \<^verbatim>\<open>bin/apiserver\<close> and
  \<^verbatim>\<open>bin/controller-manager\<close> are removed, the only child the run starts is the build
  of the controller manager, and the build of the apiserver is not started. The two
  removals happen for every other selection \<open>fl'\<close> as well.
\<close>

theorem controller_only_still_removes_both:
  assumes "BuildTargets fl = [''controller'']" and "initApis_result sur = None"
  shows "removals (snd (GoBuild fl sur)) = [''bin/apiserver'', ''bin/controller-manager''] \<and>
         runs (snd (GoBuild fl sur)) = [controller_Cmd fl sur] \<and>
         apiserver_Cmd fl sur \<notin> set (runs (snd (GoBuild fl sur))) \<and>
         removals (snd (GoBuild fl' sur)) = [''bin/apiserver'', ''bin/controller-manager'']"
proof -
  from assms(1) have sel: "\<not> buildApiserver fl" "buildController fl"
    by (simp_all add: buildApiserver_def buildController_def apiserverTarget_def
        controllerTarget_def)
  from sel assms(2) have started: "runs (snd (GoBuild fl sur)) = [controller_Cmd fl sur]"
    by (simp add: GoBuild_def effect_defs split: option.splits)
  with cmds_differ [of fl sur]
  have skipped: "apiserver_Cmd fl sur \<notin> set (runs (snd (GoBuild fl sur)))"
    by simp
  from assms(2) have "removals (snd (GoBuild f sur)) = [''bin/apiserver'', ''bin/controller-manager'']"
    for f by (rule GoBuild_removals)
  with started skipped show ?thesis
    by simp
qed

theorem controller_only_still_removes_both_witness:
  "BuildTargets (flags_default\<lparr>BuildTargets := [''controller'']\<rparr>) = [''controller''] \<and>
   initApis_result (all_succeed [''PATH=/usr/bin'']) = None \<and>
   removals (snd (GoBuild (flags_default\<lparr>BuildTargets := [''controller'']\<rparr>)
       (all_succeed [''PATH=/usr/bin''])))
     = [''bin/apiserver'', ''bin/controller-manager''] \<and>
   runs (snd (GoBuild (flags_default\<lparr>BuildTargets := [''controller'']\<rparr>)
       (all_succeed [''PATH=/usr/bin''])))
     = [controller_Cmd (flags_default\<lparr>BuildTargets := [''controller'']\<rparr>)
          (all_succeed [''PATH=/usr/bin''])] \<and>
   removals (snd (GoBuild flags_default (all_succeed [''PATH=/usr/bin''])))
     = [''bin/apiserver'', ''bin/controller-manager'']"
proof -
  have h1: "BuildTargets (flags_default\<lparr>BuildTargets := [''controller'']\<rparr>) = [''controller'']"
    by simp
  have h2: "initApis_result (all_succeed [''PATH=/usr/bin'']) = None"
    by (simp add: all_succeed_def)
  from controller_only_still_removes_both [OF h1 h2, of flags_default] h1 h2 show ?thesis
    by simp
qed

subsection \<open>C5: the cross-compilation entries\<close>

text \<open>
  Claim C5. For every child \<open>c\<close> that the direct path starts: when the configured
  \<^verbatim>\<open>goos\<close> is not empty, the child's environment contains \<^verbatim>\<open>GOOS=<goos>\<close>, and
  likewise \<^verbatim>\<open>GOARCH=<goarch>\<close>; and an entry of the child's environment under the
  key \<^verbatim>\<open>GOOS\<close> (or \<^verbatim>\<open>GOARCH\<close>) that the ambient environment does not have can only
  be that entry, with a configured value that is not empty. So the entry is added exactly
  when the configured string is not empty, and with both empty the child has no
  \<^verbatim>\<open>GOOS\<close> or \<^verbatim>\<open>GOARCH\<close> entry beyond the ambient ones. The concrete run after
  the theorem has \<^verbatim>\<open>goos = "linux"\<close> and \<^verbatim>\<open>goarch = "arm64"\<close>.
\<close>

theorem cross_compile_entries:
  assumes "c \<in> set (runs (snd (GoBuild fl sur)))"
  shows "(goos fl \<noteq> '''' \<longrightarrow> ''GOOS='' @ goos fl \<in> set (child_env (environ sur) c)) \<and>
         (goarch fl \<noteq> '''' \<longrightarrow> ''GOARCH='' @ goarch fl \<in> set (child_env (environ sur) c)) \<and>
         (\<forall>e \<in> set (child_env (environ sur) c). has_key ''GOOS'' e \<longrightarrow>
            e \<in> set (environ sur) \<or> (goos fl \<noteq> '''' \<and> e = ''GOOS='' @ goos fl)) \<and>
         (\<forall>e \<in> set (child_env (environ sur) c). has_key ''GOARCH'' e \<longrightarrow>
            e \<in> set (environ sur) \<or> (goarch fl \<noteq> '''' \<and> e = ''GOARCH='' @ goarch fl))"
proof -
  from assms GoBuild_runs_subset [of fl sur]
  consider "c = apiserver_Cmd fl sur" | "c = controller_Cmd fl sur" by auto
  then show ?thesis
  proof cases
    case 1
    with apiserver_env_GOOS [of fl sur] apiserver_env_GOARCH [of fl sur]
    show ?thesis by blast
  next
    case 2
    with controller_env_GOOS [of fl sur] controller_env_GOARCH [of fl sur]
    show ?thesis by blast
  qed
qed

theorem cross_compile_entries_witness:
  "controller_Cmd flags_linux_arm64 (all_succeed [''PATH=/usr/bin''])
     \<in> set (runs (snd (GoBuild flags_linux_arm64 (all_succeed [''PATH=/usr/bin'']))))  \<and>
   goos flags_linux_arm64 \<noteq> '''' \<and> goarch flags_linux_arm64 \<noteq> '''' \<and>
   ''GOOS=linux'' \<in> set (child_env (environ (all_succeed [''PATH=/usr/bin'']))
      (controller_Cmd flags_linux_arm64 (all_succeed [''PATH=/usr/bin'']))) \<and>
   ''GOARCH=arm64'' \<in> set (child_env (environ (all_succeed [''PATH=/usr/bin'']))
      (controller_Cmd flags_linux_arm64 (all_succeed [''PATH=/usr/bin'']))) \<and>
   apiserver_Cmd flags_default (all_succeed [''PATH=/usr/bin'', ''GOOS=plan9''])
     \<in> set (runs (snd (GoBuild flags_default (all_succeed [''PATH=/usr/bin'', ''GOOS=plan9''])))) \<and>
   goos flags_default = '''' \<and> goarch flags_default = '''' \<and>
   filter (has_key ''GOOS'') (child_env (environ (all_succeed [''PATH=/usr/bin'', ''GOOS=plan9'']))
      (apiserver_Cmd flags_default (all_succeed [''PATH=/usr/bin'', ''GOOS=plan9''])))
     = [''GOOS=plan9'']"
proof -
  let ?S = "all_succeed [''PATH=/usr/bin'']" and ?S' = "all_succeed [''PATH=/usr/bin'', ''GOOS=plan9'']"
  have r: "controller_Cmd flags_linux_arm64 ?S \<in> set (runs (snd (GoBuild flags_linux_arm64 ?S)))"
    using GoBuild_all_ok [of ?S flags_linux_arm64]
    by (simp add: all_succeed_simps sample_targets)
  have r': "apiserver_Cmd flags_default ?S' \<in> set (runs (snd (GoBuild flags_default ?S')))"
    using GoBuild_all_ok [of ?S' flags_default]
    by (simp add: all_succeed_simps sample_targets)
  have g: "goos flags_linux_arm64 = ''linux''" "goarch flags_linux_arm64 = ''arm64''"
    "goos flags_default = ''''" "goarch flags_default = ''''"
    by (simp_all add: sample_defs)
  have f: "filter (has_key ''GOOS'') (child_env (environ ?S') (apiserver_Cmd flags_default ?S'))
             = [''GOOS=plan9'']"
    by (simp add: apiserver_child_env all_succeed_simps cross_entries_def g has_key_def)
  from cross_compile_entries [OF r] cross_compile_entries [OF r'] r r' g f show ?thesis
    by simp
qed

subsection \<open>C6: \<^verbatim>\<open>CGO_ENABLED\<close>\<close>

text \<open>
  Claim C6. The build of the apiserver always gets one more \<^verbatim>\<open>CGO_ENABLED=0\<close> entry
  than the ambient environment has, and it is the last entry of its key, so the child
  sees the value \<^verbatim>\<open>0\<close> whatever the ambient value is. The build of the controller
  manager gets the same when the ambient \<^verbatim>\<open>CGO_ENABLED\<close> is empty or unset; when the
  ambient value is not empty, no \<^verbatim>\<open>CGO_ENABLED=0\<close> is added, and every entry of the
  key in the child's environment is an ambient one. These two commands are the only ones
  the direct path runs.
\<close>

theorem cgo_enabled_entries:
  "count_list (child_env (environ sur) (apiserver_Cmd fl sur)) ''CGO_ENABLED=0''
     = count_list (environ sur) ''CGO_ENABLED=0'' + 1 \<and>
   child_Getenv (child_env (environ sur) (apiserver_Cmd fl sur)) ''CGO_ENABLED'' = Some ''0'' \<and>
   (os_Getenv (environ sur) ''CGO_ENABLED'' = '''' \<longrightarrow>
      count_list (child_env (environ sur) (controller_Cmd fl sur)) ''CGO_ENABLED=0''
        = count_list (environ sur) ''CGO_ENABLED=0'' + 1 \<and>
      child_Getenv (child_env (environ sur) (controller_Cmd fl sur)) ''CGO_ENABLED'' = Some ''0'') \<and>
   (os_Getenv (environ sur) ''CGO_ENABLED'' \<noteq> '''' \<longrightarrow>
      count_list (child_env (environ sur) (controller_Cmd fl sur)) ''CGO_ENABLED=0''
        \<le> count_list (environ sur) ''CGO_ENABLED=0'' \<and>
      (\<forall>e \<in> set (child_env (environ sur) (controller_Cmd fl sur)).
         has_key ''CGO_ENABLED'' e \<longrightarrow> e \<in> set (environ sur))) \<and>
   set (runs (snd (GoBuild fl sur))) \<subseteq> {apiserver_Cmd fl sur, controller_Cmd fl sur}"
proof (intro conjI impI)
  show "count_list (child_env (environ sur) (apiserver_Cmd fl sur)) ''CGO_ENABLED=0''
          = count_list (environ sur) ''CGO_ENABLED=0'' + 1"
    and "child_Getenv (child_env (environ sur) (apiserver_Cmd fl sur)) ''CGO_ENABLED'' = Some ''0''"
    using apiserver_CGO [of sur fl] by simp_all
next
  assume unset: "os_Getenv (environ sur) ''CGO_ENABLED'' = ''''"
  from controller_CGO_unset [OF unset, of fl]
  show "count_list (child_env (environ sur) (controller_Cmd fl sur)) ''CGO_ENABLED=0''
          = count_list (environ sur) ''CGO_ENABLED=0'' + 1"
    and "child_Getenv (child_env (environ sur) (controller_Cmd fl sur)) ''CGO_ENABLED'' = Some ''0''"
    by simp_all
next
  assume given: "os_Getenv (environ sur) ''CGO_ENABLED'' \<noteq> ''''"
  from controller_CGO_set [OF given, of fl]
  show "count_list (child_env (environ sur) (controller_Cmd fl sur)) ''CGO_ENABLED=0''
          \<le> count_list (environ sur) ''CGO_ENABLED=0''"
    and "\<forall>e \<in> set (child_env (environ sur) (controller_Cmd fl sur)).
           has_key ''CGO_ENABLED'' e \<longrightarrow> e \<in> set (environ sur)"
    by simp_all
next
  show "set (runs (snd (GoBuild fl sur))) \<subseteq> {apiserver_Cmd fl sur, controller_Cmd fl sur}"
    by (rule GoBuild_runs_subset)
qed

theorem cgo_enabled_entries_witness:
  "os_Getenv (environ (all_succeed [''PATH=/usr/bin''])) ''CGO_ENABLED'' = '''' \<and>
   child_env (environ (all_succeed [''PATH=/usr/bin'']))
       (controller_Cmd flags_linux_arm64 (all_succeed [''PATH=/usr/bin'']))
     = [''PATH=/usr/bin'', ''CGO_ENABLED=0'', ''GOOS=linux'', ''GOARCH=arm64''] \<and>
   child_Getenv (child_env (environ (all_succeed [''PATH=/usr/bin'']))
       (controller_Cmd flags_linux_arm64 (all_succeed [''PATH=/usr/bin'']))) ''CGO_ENABLED''
     = Some ''0'' \<and>
   os_Getenv (environ (all_succeed [''PATH=/usr/bin'', ''CGO_ENABLED=1''])) ''CGO_ENABLED'' = ''1'' \<and>
   count_list (child_env (environ (all_succeed [''PATH=/usr/bin'', ''CGO_ENABLED=1'']))
       (controller_Cmd flags_default (all_succeed [''PATH=/usr/bin'', ''CGO_ENABLED=1''])))
     ''CGO_ENABLED=0'' = 0 \<and>
   child_Getenv (child_env (environ (all_succeed [''PATH=/usr/bin'', ''CGO_ENABLED=1'']))
       (apiserver_Cmd flags_default (all_succeed [''PATH=/usr/bin'', ''CGO_ENABLED=1''])))
     ''CGO_ENABLED'' = Some ''0''"
proof -
  let ?S = "all_succeed [''PATH=/usr/bin'']" and ?S' = "all_succeed [''PATH=/usr/bin'', ''CGO_ENABLED=1'']"
  have unset: "os_Getenv (environ ?S) ''CGO_ENABLED'' = ''''"
    by (simp add: all_succeed_simps has_key_def)
  have set1: "os_Getenv (environ ?S') ''CGO_ENABLED'' = ''1''"
    by (simp add: all_succeed_simps has_key_def)
  have env: "child_env (environ ?S) (controller_Cmd flags_linux_arm64 ?S)
               = [''PATH=/usr/bin'', ''CGO_ENABLED=0'', ''GOOS=linux'', ''GOARCH=arm64'']"
    using unset by (simp add: controller_child_env cross_entries_def all_succeed_simps sample_defs)
  have count0: "count_list (environ ?S') ''CGO_ENABLED=0'' = 0"
    by (simp add: all_succeed_simps)
  from cgo_enabled_entries [of ?S flags_linux_arm64] cgo_enabled_entries [of ?S' flags_default]
    unset set1 env count0
  show ?thesis
    by simp
qed

subsection \<open>C7: the controller manager's build can lose the ambient environment\<close>

text \<open>
  Claim C7 says that every child inherits every entry of the ambient environment, also the
  build of the controller manager under every combination of the ambient
  \<^verbatim>\<open>CGO_ENABLED\<close>, \<^verbatim>\<open>goos\<close> and \<^verbatim>\<open>goarch\<close>. The controller manager's block
  assigns \<^verbatim>\<open>os.Environ()\<close> to \<^verbatim>\<open>Env\<close> only in its \<^verbatim>\<open>CGO_ENABLED\<close> branch; with
  \<^verbatim>\<open>CGO_ENABLED=1\<close> set and \<^verbatim>\<open>--goos linux\<close>, the only append is to a nil
  \<^verbatim>\<open>Env\<close>, and the child's whole environment is \<^verbatim>\<open>GOOS=linux\<close>: the ambient
  \<^verbatim>\<open>PATH\<close> is gone. The apiserver's block, under the same flags and environment,
  keeps every ambient entry.
\<close>

theorem controller_env_drops_ambient:
  "runs (snd (GoBuild (flags_default\<lparr>goos := ''linux'', BuildTargets := [''controller'']\<rparr>)
      (all_succeed [''PATH=/usr/bin'', ''CGO_ENABLED=1''])))
     = [controller_Cmd (flags_default\<lparr>goos := ''linux'', BuildTargets := [''controller'']\<rparr>)
          (all_succeed [''PATH=/usr/bin'', ''CGO_ENABLED=1''])] \<and>
   Env (controller_Cmd (flags_default\<lparr>goos := ''linux'', BuildTargets := [''controller'']\<rparr>)
          (all_succeed [''PATH=/usr/bin'', ''CGO_ENABLED=1''])) = Some [''GOOS=linux''] \<and>
   ''PATH=/usr/bin'' \<in> set (environ (all_succeed [''PATH=/usr/bin'', ''CGO_ENABLED=1''])) \<and>
   ''PATH=/usr/bin'' \<notin> set (child_env (environ (all_succeed [''PATH=/usr/bin'', ''CGO_ENABLED=1'']))
      (controller_Cmd (flags_default\<lparr>goos := ''linux'', BuildTargets := [''controller'']\<rparr>)
          (all_succeed [''PATH=/usr/bin'', ''CGO_ENABLED=1'']))) \<and>
   child_env (environ (all_succeed [''PATH=/usr/bin'', ''CGO_ENABLED=1'']))
      (apiserver_Cmd (flags_default\<lparr>goos := ''linux'', BuildTargets := [''controller'']\<rparr>)
          (all_succeed [''PATH=/usr/bin'', ''CGO_ENABLED=1'']))
     = [''PATH=/usr/bin'', ''CGO_ENABLED=1'', ''CGO_ENABLED=0'', ''GOOS=linux'']"
proof -
  let ?F = "flags_default\<lparr>goos := ''linux'', BuildTargets := [''controller'']\<rparr>"
  let ?S = "all_succeed [''PATH=/usr/bin'', ''CGO_ENABLED=1'']"
  have t: "\<not> buildApiserver ?F" "buildController ?F"
    by (simp_all add: buildApiserver_def buildController_def sample_defs)
  have g: "os_Getenv (environ ?S) ''CGO_ENABLED'' = ''1''"
    "os_Getenv (environ ?S) ''%LocalAppData%'' = ''''"
    by (simp_all add: all_succeed_simps has_key_def)
  have x: "cross_entries ?F = [''GOOS=linux'']"
    by (simp add: cross_entries_def sample_defs)
  from GoBuild_all_ok [of ?S ?F] t g x show ?thesis
    by (simp add: all_succeed_simps controller_Env controller_child_env apiserver_child_env)
qed

subsection \<open>C8: the gate named \<^verbatim>\<open>%LocalAppData%\<close>\<close>

text \<open>
  Claim C8. The controller manager's block appends \<^verbatim>\<open>GOCACHE=...\<close> and
  \<^verbatim>\<open>LocalAppData=...\<close> only when the ambient variable whose name is the literal
  \<^verbatim>\<open>%LocalAppData%\<close> is not empty. When that variable is empty or unset, the
  \<^verbatim>\<open>Env\<close> of the command is exactly one of three values, none of which holds an
  appended entry of either key: the ambient environment followed by \<^verbatim>\<open>CGO_ENABLED=0\<close>
  and the cross-compilation entries (the ambient \<^verbatim>\<open>CGO_ENABLED\<close> is empty), nil (it is
  not, and nothing is configured), or the cross-compilation entries alone. The
  cross-compilation entries are the \<^verbatim>\<open>GOOS\<close> and \<^verbatim>\<open>GOARCH\<close> ones and none of them
  has the key \<^verbatim>\<open>GOCACHE\<close> or \<^verbatim>\<open>LocalAppData\<close>. So every entry of either key in
  \<^verbatim>\<open>Env\<close> is an ambient one, at its ambient position, and there is none when the
  ambient environment is not taken over. The gate can open: when that variable and the
  ambient \<^verbatim>\<open>CGO_ENABLED\<close> are both not empty, \<^verbatim>\<open>Env\<close> is the two entries followed
  by the cross-compilation entries.
\<close>

theorem localappdata_gate:
  "(os_Getenv (environ sur) ''%LocalAppData%'' = '''' \<longrightarrow>
      Env (controller_Cmd fl sur) =
        (if os_Getenv (environ sur) ''CGO_ENABLED'' = ''''
         then Some (environ sur @ [''CGO_ENABLED=0''] @ cross_entries fl)
         else if cross_entries fl = [] then None
         else Some (cross_entries fl)) \<and>
      filter (\<lambda>e. has_key ''GOCACHE'' e \<or> has_key ''LocalAppData'' e)
          (case Env (controller_Cmd fl sur) of None \<Rightarrow> [] | Some es \<Rightarrow> es) =
        (if os_Getenv (environ sur) ''CGO_ENABLED'' = ''''
         then filter (\<lambda>e. has_key ''GOCACHE'' e \<or> has_key ''LocalAppData'' e) (environ sur)
         else [])) \<and>
   (os_Getenv (environ sur) ''%LocalAppData%'' \<noteq> '''' \<longrightarrow>
    os_Getenv (environ sur) ''CGO_ENABLED'' \<noteq> '''' \<longrightarrow>
      Env (controller_Cmd fl sur) =
        Some ([''GOCACHE='' @ os_Getenv (environ sur) ''GOCACHE'',
               ''LocalAppData='' @ os_Getenv (environ sur) ''%LocalAppData%'']
              @ cross_entries fl)) \<and>
   cross_entries fl =
     (if goos fl \<noteq> '''' then [''GOOS='' @ goos fl] else []) @
     (if goarch fl \<noteq> '''' then [''GOARCH='' @ goarch fl] else []) \<and>
   filter (\<lambda>e. has_key ''GOCACHE'' e \<or> has_key ''LocalAppData'' e) (cross_entries fl) = []"
proof -
  let ?extra = "\<lambda>e. has_key ''GOCACHE'' e \<or> has_key ''LocalAppData'' e"
  have none: "filter ?extra (cross_entries fl) = []"
    by (auto simp: filter_empty_conv in_cross_entries has_key_def)
  have cgo: "\<not> ?extra ''CGO_ENABLED=0''"
    by (simp add: has_key_def)
  have shut: "Env (controller_Cmd fl sur) =
        (if os_Getenv (environ sur) ''CGO_ENABLED'' = ''''
         then Some (environ sur @ [''CGO_ENABLED=0''] @ cross_entries fl)
         else if cross_entries fl = [] then None
         else Some (cross_entries fl))"
    if "os_Getenv (environ sur) ''%LocalAppData%'' = ''''"
    using that by (simp add: controller_Env)
  have kept: "filter ?extra (case Env (controller_Cmd fl sur) of None \<Rightarrow> [] | Some es \<Rightarrow> es) =
        (if os_Getenv (environ sur) ''CGO_ENABLED'' = ''''
         then filter ?extra (environ sur) else [])"
    if "os_Getenv (environ sur) ''%LocalAppData%'' = ''''"
    using shut [OF that] none cgo by simp
  have opened: "Env (controller_Cmd fl sur) =
        Some ([''GOCACHE='' @ os_Getenv (environ sur) ''GOCACHE'',
               ''LocalAppData='' @ os_Getenv (environ sur) ''%LocalAppData%'']
              @ cross_entries fl)"
    if "os_Getenv (environ sur) ''%LocalAppData%'' \<noteq> ''''"
      and "os_Getenv (environ sur) ''CGO_ENABLED'' \<noteq> ''''"
    using that by (simp add: controller_Env)
  have entries: "cross_entries fl =
     (if goos fl \<noteq> '''' then [''GOOS='' @ goos fl] else []) @
     (if goarch fl \<noteq> '''' then [''GOARCH='' @ goarch fl] else [])"
    by (simp add: cross_entries_def)
  from shut kept opened entries none show ?thesis
    by blast
qed

theorem localappdata_gate_witness:
  "os_Getenv (environ (all_succeed [''GOCACHE=/tmp/go-build'', ''CGO_ENABLED=1'']))
     ''%LocalAppData%'' = '''' \<and>
   Env (controller_Cmd flags_linux_arm64
          (all_succeed [''GOCACHE=/tmp/go-build'', ''CGO_ENABLED=1'']))
     = Some [''GOOS=linux'', ''GOARCH=arm64''] \<and>
   os_Getenv (environ (all_succeed [''GOCACHE=/tmp/go-build''])) ''%LocalAppData%'' = '''' \<and>
   Env (controller_Cmd flags_linux_arm64 (all_succeed [''GOCACHE=/tmp/go-build'']))
     = Some [''GOCACHE=/tmp/go-build'', ''CGO_ENABLED=0'', ''GOOS=linux'', ''GOARCH=arm64''] \<and>
   os_Getenv (environ (all_succeed [''GOCACHE=/tmp/go-build'', ''CGO_ENABLED=1'']))
     ''CGO_ENABLED'' = ''1'' \<and>
   Env (controller_Cmd flags_default
          (all_succeed [''GOCACHE=/tmp/go-build'', ''CGO_ENABLED=1''])) = None \<and>
   os_Getenv (environ (all_succeed
       [''%LocalAppData%=/data'', ''GOCACHE=/tmp/go-build'', ''CGO_ENABLED=1'']))
     ''%LocalAppData%'' = ''/data'' \<and>
   os_Getenv (environ (all_succeed
       [''%LocalAppData%=/data'', ''GOCACHE=/tmp/go-build'', ''CGO_ENABLED=1'']))
     ''CGO_ENABLED'' = ''1'' \<and>
   Env (controller_Cmd flags_linux_arm64 (all_succeed
       [''%LocalAppData%=/data'', ''GOCACHE=/tmp/go-build'', ''CGO_ENABLED=1'']))
     = Some [''GOCACHE=/tmp/go-build'', ''LocalAppData=/data'', ''GOOS=linux'', ''GOARCH=arm64'']"
proof -
  let ?S = "all_succeed [''GOCACHE=/tmp/go-build'', ''CGO_ENABLED=1'']"
  let ?U = "all_succeed [''GOCACHE=/tmp/go-build'']"
  let ?S' = "all_succeed [''%LocalAppData%=/data'', ''GOCACHE=/tmp/go-build'', ''CGO_ENABLED=1'']"
  have a: "os_Getenv (environ ?S) ''%LocalAppData%'' = ''''"
    "os_Getenv (environ ?S) ''CGO_ENABLED'' = ''1''"
    by (simp_all add: all_succeed_simps has_key_def)
  have u: "os_Getenv (environ ?U) ''%LocalAppData%'' = ''''"
    "os_Getenv (environ ?U) ''CGO_ENABLED'' = ''''"
    "environ ?U = [''GOCACHE=/tmp/go-build'']"
    by (simp_all add: all_succeed_simps has_key_def)
  have b: "os_Getenv (environ ?S') ''%LocalAppData%'' = ''/data''"
    "os_Getenv (environ ?S') ''CGO_ENABLED'' = ''1''"
    "os_Getenv (environ ?S') ''GOCACHE'' = ''/tmp/go-build''"
    by (simp_all add: all_succeed_simps has_key_def)
  have x: "cross_entries flags_linux_arm64 = [''GOOS=linux'', ''GOARCH=arm64'']"
    "cross_entries flags_default = []"
    by (simp_all add: cross_entries_def sample_defs)
  from localappdata_gate [of ?S flags_linux_arm64] localappdata_gate [of ?U flags_linux_arm64]
    localappdata_gate [of ?S flags_default] localappdata_gate [of ?S' flags_linux_arm64]
    a u b x
  show ?thesis
    by (simp add: flags_linux_arm64_def flags_default_def)
qed

subsection \<open>C9: regenerating the build files\<close>

text \<open>
  Claim C9. On the path delegated to bazel with the \<^verbatim>\<open>Gazelle\<close> flag set, once
  \<^verbatim>\<open>initApis\<close> has returned: when \<^verbatim>\<open>os.Stat("go.mod")\<close> fails, the update of the
  repositories is not run at all and the plain \<^verbatim>\<open>bazel run //:gazelle\<close> is the first
  child; when \<^verbatim>\<open>go.mod\<close> is there, the update is the first child, with the fixed
  arguments listed, and the plain run follows it when it succeeds. A failure \<open>err\<close> of
  either child ends the run with \<^verbatim>\<open>klog.Fatal(err)\<close>, and nothing is started after it.
\<close>

theorem gazelle_regeneration_steps:
  assumes "Gazelle fl" and "initApis_result sur = None"
  shows "(stat_go_mod sur \<noteq> None \<longrightarrow>
            update_repos_Cmd \<notin> set (runs (snd (BazelBuild fl sur))) \<and>
            prefix [gazelle_Cmd] (runs (snd (BazelBuild fl sur))) \<and>
            (run_result sur gazelle_Cmd = Some err \<longrightarrow>
               fst (BazelBuild fl sur) = Inl err \<and> runs (snd (BazelBuild fl sur)) = [gazelle_Cmd])) \<and>
         (stat_go_mod sur = None \<longrightarrow>
            prefix [update_repos_Cmd] (runs (snd (BazelBuild fl sur))) \<and>
            (run_result sur update_repos_Cmd = Some err \<longrightarrow>
               fst (BazelBuild fl sur) = Inl err \<and>
               runs (snd (BazelBuild fl sur)) = [update_repos_Cmd]) \<and>
            (run_result sur update_repos_Cmd = None \<longrightarrow>
               prefix [update_repos_Cmd, gazelle_Cmd] (runs (snd (BazelBuild fl sur))) \<and>
               (run_result sur gazelle_Cmd = Some err \<longrightarrow>
                  fst (BazelBuild fl sur) = Inl err \<and>
                  runs (snd (BazelBuild fl sur)) = [update_repos_Cmd, gazelle_Cmd]))) \<and>
         Args update_repos_Cmd =
           [''bazel'', ''run'', ''//:gazelle'', ''--'', ''update-repos'', ''--from_file=go.mod'',
            ''--to_macro=repos.bzl%go_repositories'', ''--build_file_generation=on'',
            ''--build_file_proto_mode=disable'', ''--prune''] \<and>
         Args gazelle_Cmd = [''bazel'', ''run'', ''//:gazelle'']"
proof -
  obtain r t where rest: "bazel_rest fl sur = (r, t)"
    by (cases "bazel_rest fl sur")
  with bazel_rest_runs [of fl sur] update_repos_distinct
  have later: "update_repos_Cmd \<notin> set (runs t)"
    by auto
  show ?thesis
    using assms later
    by (cases "stat_go_mod sur"; cases "run_result sur update_repos_Cmd";
        cases "run_result sur gazelle_Cmd")
       (simp_all add: BazelBuild_split bazel_gazelle_def rest effect_defs bazel_Args runs_append
          update_repos_distinct)
qed

theorem gazelle_regeneration_steps_witness:
  "Gazelle flags_bazel_gazelle \<and> initApis_result no_go_mod = None \<and>
   stat_go_mod no_go_mod \<noteq> None \<and>
   update_repos_Cmd \<notin> set (runs (snd (BazelBuild flags_bazel_gazelle no_go_mod))) \<and>
   prefix [gazelle_Cmd] (runs (snd (BazelBuild flags_bazel_gazelle no_go_mod))) \<and>
   initApis_result update_repos_fails = None \<and>
   stat_go_mod update_repos_fails = None \<and>
   run_result update_repos_fails update_repos_Cmd = Some exit_status_1 \<and>
   fst (BazelBuild flags_bazel_gazelle update_repos_fails) = Inl exit_status_1 \<and>
   runs (snd (BazelBuild flags_bazel_gazelle update_repos_fails)) = [update_repos_Cmd] \<and>
   run_result (all_succeed []) update_repos_Cmd = None \<and>
   prefix [update_repos_Cmd, gazelle_Cmd]
     (runs (snd (BazelBuild flags_bazel_gazelle (all_succeed [])))) \<and>
   initApis_result gazelle_fails = None \<and>
   stat_go_mod gazelle_fails \<noteq> None \<and>
   run_result gazelle_fails gazelle_Cmd = Some exit_status_1 \<and>
   fst (BazelBuild flags_bazel_gazelle gazelle_fails) = Inl exit_status_1 \<and>
   runs (snd (BazelBuild flags_bazel_gazelle gazelle_fails)) = [gazelle_Cmd]"
proof -
  have g: "Gazelle flags_bazel_gazelle"
    by (simp add: sample_defs)
  have a: "initApis_result no_go_mod = None" "stat_go_mod no_go_mod \<noteq> None"
    by (simp_all add: sample_defs)
  have b: "initApis_result update_repos_fails = None" "stat_go_mod update_repos_fails = None"
    "run_result update_repos_fails update_repos_Cmd = Some exit_status_1"
    by (simp_all add: update_repos_fails_def all_succeed_def bazel_Args)
  have c: "initApis_result (all_succeed []) = None" "stat_go_mod (all_succeed []) = None"
    "run_result (all_succeed []) update_repos_Cmd = None"
    by (simp_all add: all_succeed_simps)
  have d: "initApis_result gazelle_fails = None" "stat_go_mod gazelle_fails \<noteq> None"
    "run_result gazelle_fails gazelle_Cmd = Some exit_status_1"
    by (simp_all add: gazelle_fails_def no_go_mod_def all_succeed_def bazel_Args)
  from gazelle_regeneration_steps [OF g a(1), of exit_status_1]
    gazelle_regeneration_steps [OF g b(1), of exit_status_1]
    gazelle_regeneration_steps [OF g c(1), of exit_status_1]
    gazelle_regeneration_steps [OF g d(1), of exit_status_1] g a b c d
  show ?thesis
    by simp
qed

subsection \<open>C10: what the bazel path removes and where it copies\<close>

text \<open>
  Claim C10. Whatever the flags and the surroundings, the path delegated to bazel removes
  no path other than \<^verbatim>\<open>bin/apiserver\<close> and \<^verbatim>\<open>bin/controller-manager\<close> and copies
  to no destination other than \<^verbatim>\<open>bin/apiserver\<close> and \<^verbatim>\<open>bin/manager\<close>. So
  \<^verbatim>\<open>bin/manager\<close> is never removed, a file that was at \<^verbatim>\<open>bin/manager\<close> is still
  there after the removals of the run, and \<^verbatim>\<open>bin/controller-manager\<close> is never the
  destination of a copy. When every step succeeds, both removals happen and the copies go
  to \<^verbatim>\<open>bin/apiserver\<close> and \<^verbatim>\<open>bin/manager\<close> for the selected targets.
\<close>

theorem bazel_removals_and_copies:
  "set (removals (snd (BazelBuild fl sur))) \<subseteq> {''bin/apiserver'', ''bin/controller-manager''} \<and>
   set (copy_dests (snd (BazelBuild fl sur))) \<subseteq> {''bin/apiserver'', ''bin/manager''} \<and>
   ''bin/manager'' \<notin> set (removals (snd (BazelBuild fl sur))) \<and>
   ''bin/controller-manager'' \<notin> set (copy_dests (snd (BazelBuild fl sur))) \<and>
   (''bin/manager'' \<in> fs \<longrightarrow> ''bin/manager'' \<in> after_removals (snd (BazelBuild fl sur)) fs) \<and>
   (initApis_result sur = None \<and> (\<forall>c. run_result sur c = None) \<longrightarrow>
      removals (snd (BazelBuild fl sur)) = [''bin/apiserver'', ''bin/controller-manager''] \<and>
      copy_dests (snd (BazelBuild fl sur)) =
        (if buildApiserver fl then [''bin/apiserver''] else []) @
        (if buildController fl then [''bin/manager''] else []))"
proof -
  let ?tr = "snd (BazelBuild fl sur)"
  have rem: "set (removals ?tr) \<subseteq> {''bin/apiserver'', ''bin/controller-manager''}"
    by (rule BazelBuild_removals)
  have cp: "set (copy_dests ?tr) \<subseteq> {''bin/apiserver'', ''bin/manager''}"
    by (rule BazelBuild_copy_dests)
  from rem have no_rem: "''bin/manager'' \<notin> set (removals ?tr)" by auto
  from cp have no_cp: "''bin/controller-manager'' \<notin> set (copy_dests ?tr)" by auto
  from rem have "\<forall>p \<in> set (removals ?tr). ''bin/manager'' \<noteq> p \<and> \<not> prefix (p @ ''/'') ''bin/manager''"
    by auto
  then have keep: "''bin/manager'' \<in> fs \<longrightarrow> ''bin/manager'' \<in> after_removals ?tr fs"
    unfolding after_removals_def by (blast intro: survives_removals)
  from rem cp no_rem no_cp keep BazelBuild_all_ok [of sur fl] show ?thesis
    by blast
qed

theorem bazel_removals_and_copies_witness:
  "''bin/manager'' \<in> {''bin/apiserver'', ''bin/controller-manager'', ''bin/manager''} \<and>
   initApis_result (all_succeed []) = None \<and> (\<forall>c. run_result (all_succeed []) c = None) \<and>
   buildApiserver flags_bazel_gazelle \<and> buildController flags_bazel_gazelle \<and>
   ''bin/manager'' \<in> after_removals (snd (BazelBuild flags_bazel_gazelle (all_succeed [])))
      {''bin/apiserver'', ''bin/controller-manager'', ''bin/manager''} \<and>
   removals (snd (BazelBuild flags_bazel_gazelle (all_succeed [])))
     = [''bin/apiserver'', ''bin/controller-manager''] \<and>
   copy_dests (snd (BazelBuild flags_bazel_gazelle (all_succeed [])))
     = [''bin/apiserver'', ''bin/manager'']"
proof -
  have a: "initApis_result (all_succeed []) = None" "\<forall>c. run_result (all_succeed []) c = None"
    by (simp_all add: all_succeed_simps)
  from bazel_removals_and_copies [of flags_bazel_gazelle "all_succeed []"
      "{''bin/apiserver'', ''bin/controller-manager'', ''bin/manager''}"] a sample_targets
  show ?thesis
    by simp
qed

end
